theory Spec2Isabelle
  imports Complex_Main "HOL-Library.AList"
begin

section \<open>Inference by enumeration over a discrete Bayesian network\<close>

text \<open>
  A shallow embedding of \<^verbatim>\<open>Exercise-1.py\<close>: the classes \<^verbatim>\<open>Variable\<close>,
  \<^verbatim>\<open>BayesianNetwork\<close> and \<^verbatim>\<open>InferenceByEnumeration\<close>.

  Conventions of the embedding.
  \<^item> A raised exception is a value \<open>Inl e\<close> of a sum type, a returned value is \<open>Inr v\<close>.
  \<^item> A \<^verbatim>\<open>while\<close> loop that may run forever is a \<open>partial_function (option)\<close>:
    \<open>None\<close> means that the loop never returns.
  \<^item> A finite Python float or numpy \<^verbatim>\<open>float64\<close> is a \<open>real\<close>: the rounding of floating
    point arithmetic is not modelled. What numpy returns for a division by zero
    (\<^verbatim>\<open>nan\<close>, \<^verbatim>\<open>inf\<close>, \<^verbatim>\<open>-inf\<close>) is modelled.
  \<^item> A Python int is an \<open>int\<close>. Arithmetic on numpy's \<^verbatim>\<open>int64\<close> wraps around, and the
    wrap-around is written out; a Python int that meets numpy is taken to fit into
    \<^verbatim>\<open>int64\<close>.
  \<^item> Python compares \<^verbatim>\<open>Variable\<close> objects by identity. No field of a
    \<^verbatim>\<open>Variable\<close> is assigned after construction, so an object is represented by its
    field values; two separately constructed objects with equal fields are identified.
  \<^item> \<^verbatim>\<open>print\<close> calls are not modelled.
\<close>

subsection \<open>Exceptions and dynamically typed values\<close>

text \<open>
  The exceptions of Python that the code raises, and \<open>ZeroProbabilityEvidence\<close>, the
  error that the specification names for a normalization by zero: no definition taken
  from the code returns it.
\<close>

datatype error =
  TypeError | ValueError | KeyError | IndexError | ZeroDivisionError | AttributeError
  | ZeroProbabilityEvidence

record variable =
  name :: string
  no_states :: int
  table :: "real list list"
  parents :: "string list"
  no_parent_states :: "int list"

text \<open>
  The values that reach \<^verbatim>\<open>probability\<close> as \<^verbatim>\<open>state\<close> or as a value of the
  \<^verbatim>\<open>parentstates\<close> dictionary: a Python int, a Python float, a numpy integer scalar,
  or a \<^verbatim>\<open>Variable\<close> object (the enumeration routines store the object itself in the
  evidence). Python's \<^verbatim>\<open>bool\<close>, a subclass of \<^verbatim>\<open>int\<close>, is left out.
  Dictionary keys are strings (variable names) or \<^verbatim>\<open>Variable\<close> objects.
\<close>

datatype pyval = PInt int | PFloat real | PNpInt int | PObj variable

datatype pykey = KStr string | KObj variable

type_synonym pydict = "pykey \<rightharpoonup> pyval"

text \<open>An argument that is either a dictionary or some other value.\<close>

datatype pyarg = ADict pydict | AVal pyval

subsection \<open>numpy helpers\<close>

text \<open>The value that an \<^verbatim>\<open>int64\<close> holds after an arithmetic result \<open>x\<close> has wrapped around.\<close>

definition int64_wrap :: "int \<Rightarrow> int" where
  "int64_wrap x = (x + 2 ^ 63) mod 2 ^ 64 - 2 ^ 63"

text \<open>A numpy scalar: an \<^verbatim>\<open>int64\<close> or a \<^verbatim>\<open>float64\<close>.\<close>

datatype np_scalar = NpInt64 int | NpFloat64 real

fun np_value :: "np_scalar \<Rightarrow> real" where
  "np_value (NpInt64 i) = of_int i"
| "np_value (NpFloat64 x) = x"

text \<open>
  \<^verbatim>\<open>np.prod\<close> of a list of Python ints: the float \<open>1.0\<close> for the empty list, and
  otherwise the product computed in \<^verbatim>\<open>int64\<close>, which wraps around silently.
\<close>

definition np_prod :: "int list \<Rightarrow> np_scalar" where
  "np_prod xs = (if xs = [] then NpFloat64 1 else NpInt64 (int64_wrap (prod_list xs)))"

text \<open>\<^verbatim>\<open>table.shape[1]\<close> of a two-dimensional array given by its rows.\<close>

definition shape1 :: "real list list \<Rightarrow> nat" where
  "shape1 tbl = (case tbl of [] \<Rightarrow> 0 | r # _ \<Rightarrow> length r)"

text \<open>
  \<^verbatim>\<open>np.array(table)\<close> is two-dimensional when there is a first row and all rows have
  its length.
\<close>

definition rectangular :: "real list list \<Rightarrow> bool" where
  "rectangular tbl = (tbl \<noteq> [] \<and> list_all (\<lambda>r. length r = shape1 tbl) tbl)"

text \<open>\<^verbatim>\<open>table.sum(axis=0)\<close>: the sum of every column.\<close>

definition column_sums :: "real list list \<Rightarrow> real list" where
  "column_sums tbl = map (\<lambda>j. sum_list (map (\<lambda>r. r ! j) tbl)) [0..<shape1 tbl]"

text \<open>
  \<^verbatim>\<open>np.allclose(a, 1)\<close> with numpy's default tolerances \<^verbatim>\<open>rtol=1e-05\<close>,
  \<^verbatim>\<open>atol=1e-08\<close>: every entry \<open>x\<close> has \<open>|x - 1| \<le> atol + rtol * |1|\<close>.
\<close>

definition np_allclose_1 :: "real list \<Rightarrow> bool" where
  "np_allclose_1 xs = list_all (\<lambda>x. \<bar>x - 1\<bar> \<le> 1 / 10 ^ 8 + 1 / 10 ^ 5 * 1) xs"

text \<open>
  An index into an axis of length \<open>n\<close>: a negative index counts from the end,
  anything outside \<open>-n \<le> i < n\<close> raises \<^verbatim>\<open>IndexError\<close>.
\<close>

definition np_index :: "nat \<Rightarrow> int \<Rightarrow> error + nat" where
  "np_index n i =
     (if 0 \<le> i \<and> i < int n then Inr (nat i)
      else if - int n \<le> i \<and> i < 0 then Inr (nat (i + int n))
      else Inl IndexError)"

text \<open>\<^verbatim>\<open>table[i, j]\<close>.\<close>

definition np_getitem2 :: "real list list \<Rightarrow> int \<Rightarrow> int \<Rightarrow> error + real" where
  "np_getitem2 tbl i j =
     (case np_index (length tbl) i of
        Inl e \<Rightarrow> Inl e
      | Inr r \<Rightarrow>
          (case np_index (length (tbl ! r)) j of
             Inl e \<Rightarrow> Inl e
           | Inr c \<Rightarrow> Inr (tbl ! r ! c)))"

text \<open>\<^verbatim>\<open>int(x)\<close> of a float: truncation towards zero.\<close>

definition py_int :: "real \<Rightarrow> int" where
  "py_int x = (if 0 \<le> x then \<lfloor>x\<rfloor> else \<lceil>x\<rceil>)"

text \<open>\<^verbatim>\<open>xs.index(x)\<close> for an \<open>x\<close> that occurs in \<open>xs\<close>: its first position.\<close>

definition list_index :: "'a list \<Rightarrow> 'a \<Rightarrow> nat" where
  "list_index xs x = length (takeWhile (\<lambda>y. y \<noteq> x) xs)"

subsection \<open>Variable\<close>

text \<open>
  \<^verbatim>\<open>Variable.__init__\<close>: the four checks in the order of the source. For a table
  without rows \<^verbatim>\<open>np.array\<close> gives an array of shape \<open>(0,)\<close>: the first check compares
  0 with \<^verbatim>\<open>no_states\<close> and the second one finds no \<^verbatim>\<open>shape[1]\<close> and raises
  \<^verbatim>\<open>IndexError\<close>. For rows of different lengths \<^verbatim>\<open>np.array\<close> itself raises
  \<^verbatim>\<open>ValueError\<close> (numpy 1.24 and later).
\<close>

definition Variable_init ::
  "string \<Rightarrow> int \<Rightarrow> real list list \<Rightarrow> string list \<Rightarrow> int list \<Rightarrow> error + variable" where
  "Variable_init nm n tbl ps nps =
     (if tbl = [] then (if 0 \<noteq> n then Inl ValueError else Inl IndexError)
      else if \<not> rectangular tbl then Inl ValueError
      else if int (length tbl) \<noteq> n then Inl ValueError
      else if real (shape1 tbl) \<noteq> np_value (np_prod nps) then Inl ValueError
      else if \<not> np_allclose_1 (column_sums tbl) then Inl ValueError
      else if length ps \<noteq> length nps then Inl ValueError
      else Inr \<lparr>name = nm, no_states = n, table = tbl, parents = ps, no_parent_states = nps\<rparr>)"

text \<open>A valid \<^verbatim>\<open>Variable\<close> is one that its constructor returns.\<close>

definition valid_variable :: "variable \<Rightarrow> bool" where
  "valid_variable v =
     (Variable_init (name v) (no_states v) (table v) (parents v) (no_parent_states v) = Inr v)"

text \<open>
  The numeric value of \<^verbatim>\<open>parentstates[variable] * np.prod(...)\<close>: an integer times an
  \<^verbatim>\<open>int64\<close> is an \<^verbatim>\<open>int64\<close> and wraps around, everything else is a product of
  floats; a \<^verbatim>\<open>Variable\<close> object has no multiplication and raises \<^verbatim>\<open>TypeError\<close>.
\<close>

fun py_mul :: "pyval \<Rightarrow> np_scalar \<Rightarrow> error + real" where
  "py_mul (PInt k) (NpInt64 p) = Inr (of_int (int64_wrap (k * p)))"
| "py_mul (PNpInt k) (NpInt64 p) = Inr (of_int (int64_wrap (k * p)))"
| "py_mul (PInt k) (NpFloat64 p) = Inr (of_int k * p)"
| "py_mul (PNpInt k) (NpFloat64 p) = Inr (of_int k * p)"
| "py_mul (PFloat x) p = Inr (x * np_value p)"
| "py_mul (PObj _) p = Inl TypeError"

text \<open>
  The loop \<^verbatim>\<open>for variable in self.parents\<close> of \<^verbatim>\<open>probability\<close>, on the parents
  still to visit and the value of \<^verbatim>\<open>table_index\<close> so far.
\<close>

fun table_index_loop :: "variable \<Rightarrow> pydict \<Rightarrow> string list \<Rightarrow> real \<Rightarrow> error + real" where
  "table_index_loop v ps [] table_index = Inr table_index"
| "table_index_loop v ps (p # rest) table_index =
     (case ps (KStr p) of
        None \<Rightarrow> Inl ValueError
      | Some x \<Rightarrow>
          (let var_index = list_index (parents v) p in
           case py_mul x (np_prod (take var_index (no_parent_states v))) of
             Inl e \<Rightarrow> Inl e
           | Inr t \<Rightarrow> table_index_loop v ps rest (table_index + t)))"

text \<open>
  \<^verbatim>\<open>Variable.probability(state, parentstates)\<close>: the two \<^verbatim>\<open>isinstance\<close> guards,
  the two range checks on \<^verbatim>\<open>state\<close>, the loop over the parents, the table lookup.
\<close>

definition probability :: "variable \<Rightarrow> pyval \<Rightarrow> pyarg \<Rightarrow> error + real" where
  "probability v state parentstates =
     (case state of
        PInt s \<Rightarrow>
          (case parentstates of
             ADict ps \<Rightarrow>
               (if s \<ge> no_states v then Inl ValueError
                else if s < 0 then Inl ValueError
                else
                  (case table_index_loop v ps (parents v) 0 of
                     Inl e \<Rightarrow> Inl e
                   | Inr table_index \<Rightarrow> np_getitem2 (table v) s (py_int table_index)))
           | AVal _ \<Rightarrow> Inl TypeError)
      | _ \<Rightarrow> Inl TypeError)"

subsection \<open>BayesianNetwork\<close>

text \<open>
  \<^verbatim>\<open>self.variables\<close> is a dictionary from names to \<^verbatim>\<open>Variable\<close> objects and
  \<^verbatim>\<open>self.edges\<close> a \<^verbatim>\<open>defaultdict\<close> from a \<^verbatim>\<open>Variable\<close> to the list of its children.
  Python dictionaries keep insertion order and \<^verbatim>\<open>sorted_nodes\<close> iterates over them, so
  both are association lists; \<open>AList.update\<close> replaces the value of a key that is
  present at its place and appends a new key at the end, as Python does.
\<close>

record network =
  variables :: "(string \<times> variable) list"
  edges :: "(variable \<times> variable list) list"

definition BayesianNetwork_init :: network where
  "BayesianNetwork_init = \<lparr>variables = [], edges = []\<rparr>"

text \<open>
  Reading \<^verbatim>\<open>d[k]\<close> from a \<^verbatim>\<open>defaultdict(lambda: [])\<close>: the value read, and the
  dictionary afterwards (a missing key is inserted with a new empty list).
\<close>

definition dd_get :: "('k \<times> 'v list) list \<Rightarrow> 'k \<Rightarrow> 'v list" where
  "dd_get d k = (case map_of d k of None \<Rightarrow> [] | Some l \<Rightarrow> l)"

definition dd_touch :: "('k \<times> 'v list) list \<Rightarrow> 'k \<Rightarrow> ('k \<times> 'v list) list" where
  "dd_touch d k = (case map_of d k of None \<Rightarrow> d @ [(k, [])] | Some l \<Rightarrow> d)"

text \<open>\<^verbatim>\<open>add_variable\<close>: the \<^verbatim>\<open>isinstance\<close> guard, then the assignment into the dictionary.\<close>

fun add_variable :: "network \<Rightarrow> pyval \<Rightarrow> error + network" where
  "add_variable bn (PObj v) = Inr (bn\<lparr>variables := AList.update (name v) v (variables bn)\<rparr>)"
| "add_variable bn _ = Inl TypeError"

text \<open>\<^verbatim>\<open>add_edge\<close>: both endpoints must be values of \<^verbatim>\<open>self.variables\<close>.\<close>

definition add_edge :: "network \<Rightarrow> variable \<Rightarrow> variable \<Rightarrow> error + network" where
  "add_edge bn from_variable to_variable =
     (if from_variable \<notin> set (map snd (variables bn)) then Inl ValueError
      else if to_variable \<notin> set (map snd (variables bn)) then Inl ValueError
      else Inr (bn\<lparr>edges :=
        AList.update from_variable (dd_get (edges bn) from_variable @ [to_variable]) (edges bn)\<rparr>))"

subsection \<open>sorted\_nodes\<close>

text \<open>
  The local variables of \<^verbatim>\<open>sorted_nodes\<close> that its loops change. \<^verbatim>\<open>edge_dict\<close> is a
  shallow copy of \<^verbatim>\<open>self.edges\<close>: a new dictionary holding the same list objects.
  Inside the inner loop \<^verbatim>\<open>child_list\<close>, \<^verbatim>\<open>children_of_variable[n_parent]\<close> and
  \<^verbatim>\<open>children_of_n\<close> are one and the same list object, the one stored in
  \<^verbatim>\<open>edge_dict[n_parent]\<close>; a change of that list is written to both dictionaries
  under the key \<^verbatim>\<open>n_parent\<close>.
\<close>

record sort_state =
  l_sorted :: "variable list"
  s_origin_nodes :: "variable list"
  edge_dict :: "(variable \<times> variable list) list"
  children_of_variable :: "(variable \<times> variable list) list"

text \<open>What \<^verbatim>\<open>sorted_nodes\<close> returns: the list, or \<^verbatim>\<open>None\<close> (the value of \<^verbatim>\<open>print(...)\<close>).\<close>

datatype sorted_result = Sorted "variable list" | Returned_None

text \<open>
  \<^verbatim>\<open>for liste in children_of_variable.values()\<close>: stop at the first list that holds
  \<^verbatim>\<open>child\<close>, append \<^verbatim>\<open>child\<close> to \<^verbatim>\<open>s_origin_nodes\<close> for every list before it.
\<close>

fun liste_loop :: "variable \<Rightarrow> variable list list \<Rightarrow> variable list \<Rightarrow> variable list" where
  "liste_loop child [] origins = origins"
| "liste_loop child (liste # rest) origins =
     (if child \<in> set liste then origins else liste_loop child rest (origins @ [child]))"

text \<open>
  One pass through the body of \<^verbatim>\<open>while edge_dict[n_parent]\<close>, entered with the
  non-empty list \<^verbatim>\<open>child_list = child # others\<close>: the first child is removed, the
  \<^verbatim>\<open>for\<close> loop runs, and the child is appended to the same list again.
\<close>

definition inner_body :: "variable \<Rightarrow> variable \<Rightarrow> variable list \<Rightarrow> sort_state \<Rightarrow> sort_state" where
  "inner_body n_parent child others st =
     (let child_list = child # others;
          cov1 = AList.update n_parent child_list (children_of_variable st);
          removed = remove1 child child_list;
          ed2 = AList.update n_parent removed (edge_dict st);
          cov2 = AList.update n_parent removed cov1;
          origins = liste_loop child (map snd cov2) (s_origin_nodes st);
          appended = removed @ [child]
      in st\<lparr>s_origin_nodes := origins,
            edge_dict := AList.update n_parent appended ed2,
            children_of_variable := AList.update n_parent appended cov2\<rparr>)"

partial_function (option) inner_while :: "variable \<Rightarrow> sort_state \<Rightarrow> sort_state option" where
  "inner_while n_parent st =
     (case dd_get (edge_dict st) n_parent of
        [] \<Rightarrow> Some (st\<lparr>edge_dict := dd_touch (edge_dict st) n_parent\<rparr>)
      | child # others \<Rightarrow> inner_while n_parent (inner_body n_parent child others st))"

text \<open>\<^verbatim>\<open>while s_origin_nodes\<close>: pop the last node, append it to \<^verbatim>\<open>l_sorted\<close>, run the inner loop.\<close>

partial_function (option) outer_while :: "sort_state \<Rightarrow> sort_state option" where
  "outer_while st =
     (if s_origin_nodes st = [] then Some st
      else
        Option.bind
          (inner_while (last (s_origin_nodes st))
             (st\<lparr>s_origin_nodes := butlast (s_origin_nodes st),
                 l_sorted := l_sorted st @ [last (s_origin_nodes st)]\<rparr>))
          outer_while)"

text \<open>
  The first loop reads \<^verbatim>\<open>self.variables[variable_name]\<close> for every key, in the order
  of the keys.
\<close>

definition variables_of :: "network \<Rightarrow> variable list" where
  "variables_of bn = List.map_filter (map_of (variables bn)) (map fst (variables bn))"

text \<open>
  The last loop: \<^verbatim>\<open>children_of_variable\<close> is a plain dictionary, so a key that is
  missing raises \<^verbatim>\<open>KeyError\<close>; a non-empty list prints a message and returns \<^verbatim>\<open>None\<close>.
\<close>

fun cycle_check ::
  "(variable \<times> variable list) list \<Rightarrow> variable list \<Rightarrow> variable list \<Rightarrow> error + sorted_result" where
  "cycle_check cov [] order = Inr (Sorted order)"
| "cycle_check cov (v # vs) order =
     (case map_of cov v of
        None \<Rightarrow> Inl KeyError
      | Some children \<Rightarrow> if children \<noteq> [] then Inr Returned_None else cycle_check cov vs order)"

text \<open>\<^verbatim>\<open>sorted_nodes\<close>; \<open>None\<close> means that the call does not return.\<close>

definition sorted_nodes :: "network \<Rightarrow> (error + sorted_result) option" where
  "sorted_nodes bn =
     (case outer_while
             \<lparr>l_sorted = [],
              s_origin_nodes = filter (\<lambda>v. parents v = []) (variables_of bn),
              edge_dict = edges bn,
              children_of_variable = []\<rparr> of
        None \<Rightarrow> None
      | Some st \<Rightarrow> Some (cycle_check (children_of_variable st) (variables_of bn) (l_sorted st)))"

subsection \<open>InferenceByEnumeration\<close>

record engine =
  bayesian_network :: network
  topo_order :: sorted_result

text \<open>The constructor calls \<^verbatim>\<open>sorted_nodes\<close> and stores what it returns.\<close>

definition InferenceByEnumeration_init :: "network \<Rightarrow> (error + engine) option" where
  "InferenceByEnumeration_init bn =
     (case sorted_nodes bn of
        None \<Rightarrow> None
      | Some (Inl e) \<Rightarrow> Some (Inl e)
      | Some (Inr order) \<Rightarrow> Some (Inr \<lparr>bayesian_network = bn, topo_order = order\<rparr>))"

text \<open>
  A weight is a finite number: a Python number (int or float) or a numpy
  \<^verbatim>\<open>float64\<close>. The two kinds divide differently.
\<close>

datatype weight = PyNum real | NpNum real

fun weight_value :: "weight \<Rightarrow> real" where
  "weight_value (PyNum x) = x"
| "weight_value (NpNum x) = x"

fun is_numpy :: "weight \<Rightarrow> bool" where
  "is_numpy (PyNum _) = False"
| "is_numpy (NpNum _) = True"

text \<open>
  What a division returns: a finite Python float, a finite \<^verbatim>\<open>float64\<close>, or one of
  numpy's \<^verbatim>\<open>inf\<close>, \<^verbatim>\<open>-inf\<close> and \<^verbatim>\<open>nan\<close>.
\<close>

datatype ratio = PyQuot real | NpQuot real | NpInf | NpNegInf | NpNan

fun is_finite :: "ratio \<Rightarrow> bool" where
  "is_finite (PyQuot _) = True"
| "is_finite (NpQuot _) = True"
| "is_finite _ = False"

fun ratio_value :: "ratio \<Rightarrow> real" where
  "ratio_value (PyQuot x) = x"
| "ratio_value (NpQuot x) = x"
| "ratio_value _ = 0"

text \<open>
  \<^verbatim>\<open>sum(query)\<close> starts from the int 0 and adds the elements: the result is a
  \<^verbatim>\<open>float64\<close> as soon as one element is.
\<close>

definition py_sum :: "weight list \<Rightarrow> weight" where
  "py_sum ws =
     (if list_ex is_numpy ws then NpNum (sum_list (map weight_value ws))
      else PyNum (sum_list (map weight_value ws)))"

text \<open>
  Division of \<^verbatim>\<open>float64\<close> by zero raises nothing: numpy warns and returns \<^verbatim>\<open>nan\<close>
  for \<open>0 / 0\<close> and an infinity with the sign of the dividend otherwise.
\<close>

definition np_divide :: "real \<Rightarrow> real \<Rightarrow> ratio" where
  "np_divide x z =
     (if z \<noteq> 0 then NpQuot (x / z)
      else if x = 0 then NpNan
      else if 0 < x then NpInf
      else NpNegInf)"

text \<open>
  \<^verbatim>\<open>x / z\<close>: between two Python numbers a division by zero raises
  \<^verbatim>\<open>ZeroDivisionError\<close>; when one of them is a \<^verbatim>\<open>float64\<close> the division is numpy's.
\<close>

fun py_truediv :: "weight \<Rightarrow> weight \<Rightarrow> error + ratio" where
  "py_truediv (PyNum x) (PyNum z) =
     (if z = 0 then Inl ZeroDivisionError else Inr (PyQuot (x / z)))"
| "py_truediv x z = Inr (np_divide (weight_value x) (weight_value z))"

text \<open>A list comprehension whose elements may raise: the first one that raises ends it.\<close>

fun collect_results :: "(error + 'a) list \<Rightarrow> error + 'a list" where
  "collect_results [] = Inr []"
| "collect_results (Inl e # rs) = Inl e"
| "collect_results (Inr x # rs) =
     (case collect_results rs of Inl e \<Rightarrow> Inl e | Inr xs \<Rightarrow> Inr (x # xs))"

text \<open>
  \<^verbatim>\<open>normalize\<close>: the sum, then one division \<^verbatim>\<open>element * 1 / z\<close> per element (the
  product with the int 1 is the element itself). There is no test of \<open>z\<close>.
\<close>

definition normalize :: "weight list \<Rightarrow> error + ratio list" where
  "normalize query =
     (let z = py_sum query in
      collect_results (map (\<lambda>element. py_truediv element z) query))"

text \<open>\<^verbatim>\<open>get_parents\<close>: a parent name that is not in the network raises \<^verbatim>\<open>KeyError\<close>.\<close>

fun get_parents_loop :: "network \<Rightarrow> string list \<Rightarrow> error + variable list" where
  "get_parents_loop bn [] = Inr []"
| "get_parents_loop bn (parent_name # rest) =
     (case map_of (variables bn) parent_name of
        None \<Rightarrow> Inl KeyError
      | Some p \<Rightarrow>
          (case get_parents_loop bn rest of
             Inl e \<Rightarrow> Inl e
           | Inr ps \<Rightarrow> Inr (p # ps)))"

definition get_parents :: "network \<Rightarrow> variable \<Rightarrow> error + variable list" where
  "get_parents bn v = get_parents_loop bn (parents v)"

text \<open>
  \<^verbatim>\<open>_enumerate_all(vars, evidence)\<close>. \<^verbatim>\<open>vars.pop()\<close> takes the last element; every
  recursive call gets a copy of what is left. The test \<^verbatim>\<open>y_variable in y_evidence\<close>
  looks the \<^verbatim>\<open>Variable\<close> object up as a key. In the \<^verbatim>\<open>for\<close> loop
  \<^verbatim>\<open>probability\<close> reads \<^verbatim>\<open>evidence\<close> while the recursive call gets
  \<^verbatim>\<open>y_evidence\<close>, which after every pass binds the name of \<^verbatim>\<open>y_variable\<close> to the
  object itself. \<open>enumerate_loop\<close> is that loop, on the states still to visit and the
  value of \<^verbatim>\<open>summ\<close>. The dictionary \<^verbatim>\<open>y_parent_states_dict\<close> is never read.
\<close>

function enumerate_all :: "network \<Rightarrow> variable list \<Rightarrow> pydict \<Rightarrow> error + real"
  and enumerate_loop ::
    "network \<Rightarrow> variable \<Rightarrow> variable list \<Rightarrow> pydict \<Rightarrow> pydict \<Rightarrow> int list \<Rightarrow> real \<Rightarrow> error + real"
where
  "enumerate_all bn vars evidence =
     (if vars = [] then Inr 1
      else
        (case get_parents bn (last vars) of
           Inl e \<Rightarrow> Inl e
         | Inr y_parents \<Rightarrow>
             (if evidence (KObj (last vars)) \<noteq> None
              then
                (case probability (last vars) (PInt (no_states (last vars))) (ADict evidence) of
                   Inl e \<Rightarrow> Inl e
                 | Inr p \<Rightarrow>
                     (case enumerate_all bn (butlast vars) evidence of
                        Inl e \<Rightarrow> Inl e
                      | Inr r \<Rightarrow> Inr (p * r)))
              else
                enumerate_loop bn (last vars) (butlast vars) evidence evidence
                  [0..no_states (last vars) - 1] 0)))"
| "enumerate_loop bn y_variable rest evidence y_evidence [] summ = Inr summ"
| "enumerate_loop bn y_variable rest evidence y_evidence (y_state # states) summ =
     (case probability y_variable (PInt y_state) (ADict evidence) of
        Inl e \<Rightarrow> Inl e
      | Inr p \<Rightarrow>
          (case enumerate_all bn rest y_evidence of
             Inl e \<Rightarrow> Inl e
           | Inr r \<Rightarrow>
               enumerate_loop bn y_variable rest evidence
                 (y_evidence(KStr (name y_variable) \<mapsto> PObj y_variable)) states (summ + p * r)))"
  by pat_completeness auto
termination
  by (relation
      "(\<lambda>x. case x of Inl (bn, vars, ev) \<Rightarrow> length vars
                     | Inr (bn, y, rest, ev, yev, states, summ) \<Rightarrow> length rest)
       <*mlex*>
       measure (\<lambda>x. case x of Inl (bn, vars, ev) \<Rightarrow> 0
                     | Inr (bn, y, rest, ev, yev, states, summ) \<Rightarrow> Suc (length states))")
    (auto simp: wf_mlex mlex_less mlex_leq)

text \<open>
  The kind of number that \<^verbatim>\<open>_enumerate_all\<close> returns: the Python float \<open>1.0\<close> for
  the empty list, the Python int 0 of \<^verbatim>\<open>summ\<close> when the loop over the states never
  runs, and otherwise a \<^verbatim>\<open>float64\<close>, since \<^verbatim>\<open>probability\<close> returns an entry of a
  numpy array and every pass adds a product with it to \<^verbatim>\<open>summ\<close>.
\<close>

definition enumerate_all_weight :: "network \<Rightarrow> variable list \<Rightarrow> pydict \<Rightarrow> error + weight" where
  "enumerate_all_weight bn vars evidence =
     (case enumerate_all bn vars evidence of
        Inl e \<Rightarrow> Inl e
      | Inr w \<Rightarrow> Inr (if vars \<noteq> [] \<and> 0 < no_states (last vars) then NpNum w else PyNum w))"

text \<open>\<^verbatim>\<open>list.insert(i, x)\<close> for \<open>i \<ge> 0\<close>.\<close>

definition py_insert :: "nat \<Rightarrow> 'a \<Rightarrow> 'a list \<Rightarrow> 'a list" where
  "py_insert i x xs = take i xs @ [x] @ drop i xs"

text \<open>
  The loop of \<^verbatim>\<open>_enumeration_ask\<close>. \<^verbatim>\<open>new_vars\<close> is one list shared by all passes:
  each call of \<^verbatim>\<open>_enumerate_all\<close> pops its last element (none when it is empty).
  \<^verbatim>\<open>x_evidence\<close> is changed after the call, and binds the name to the object.
\<close>

fun ask_loop ::
  "network \<Rightarrow> variable \<Rightarrow> variable list \<Rightarrow> pydict \<Rightarrow> int list \<Rightarrow> weight list \<Rightarrow>
     error + weight list" where
  "ask_loop bn x_variable new_vars x_evidence [] query_of_x = Inr query_of_x"
| "ask_loop bn x_variable new_vars x_evidence (x_state # states) query_of_x =
     (case enumerate_all_weight bn new_vars x_evidence of
        Inl e \<Rightarrow> Inl e
      | Inr w \<Rightarrow>
          ask_loop bn x_variable (butlast new_vars)
            (x_evidence(KStr (name x_variable) \<mapsto> PObj x_variable)) states
            (py_insert (nat x_state) w query_of_x))"

text \<open>
  \<^verbatim>\<open>_enumeration_ask(X, evidence)\<close>: a missing \<^verbatim>\<open>X\<close> raises \<^verbatim>\<open>KeyError\<close>; a
  \<^verbatim>\<open>topo_order\<close> that is \<^verbatim>\<open>None\<close> has no \<^verbatim>\<open>copy\<close> and raises \<^verbatim>\<open>AttributeError\<close>.
\<close>

definition enumeration_ask :: "engine \<Rightarrow> string \<Rightarrow> pydict \<Rightarrow> error + ratio list" where
  "enumeration_ask eng X evidence =
     (case map_of (variables (bayesian_network eng)) X of
        None \<Rightarrow> Inl KeyError
      | Some x_variable \<Rightarrow>
          (case topo_order eng of
             Returned_None \<Rightarrow> Inl AttributeError
           | Sorted vars \<Rightarrow>
               (case ask_loop (bayesian_network eng) x_variable vars evidence
                       [0..no_states x_variable - 1] [] of
                  Inl e \<Rightarrow> Inl e
                | Inr query_of_x \<Rightarrow> normalize query_of_x)))"

text \<open>
  \<^verbatim>\<open>query\<close>: the result of \<^verbatim>\<open>_enumeration_ask\<close> as a one-column table of a new
  \<^verbatim>\<open>Variable\<close> without parents. A result without entries is an array of shape
  \<open>(0, 1)\<close> whose column sums to 0, and a column that holds \<^verbatim>\<open>nan\<close> or an infinity
  does not sum to 1: the constructor raises \<^verbatim>\<open>ValueError\<close> for both, at its first or
  at its third check.
\<close>

definition query :: "engine \<Rightarrow> string \<Rightarrow> pydict \<Rightarrow> error + variable" where
  "query eng var evidence =
     (case enumeration_ask eng var evidence of
        Inl e \<Rightarrow> Inl e
      | Inr q \<Rightarrow>
          (case map_of (variables (bayesian_network eng)) var of
             None \<Rightarrow> Inl KeyError
           | Some x \<Rightarrow>
               if q = [] \<or> \<not> list_all is_finite q then Inl ValueError
               else Variable_init var (no_states x) (map (\<lambda>w. [ratio_value w]) q) [] []))"

text \<open>
  The way \<^verbatim>\<open>problem3c\<close> uses the classes: build the engine over a network, then
  query it. \<open>None\<close> means that the run does not return.
\<close>

definition build_and_query :: "network \<Rightarrow> string \<Rightarrow> pydict \<Rightarrow> (error + variable) option" where
  "build_and_query bn var evidence =
     (case InferenceByEnumeration_init bn of
        None \<Rightarrow> None
      | Some (Inl e) \<Rightarrow> Some (Inl e)
      | Some (Inr eng) \<Rightarrow> Some (query eng var evidence))"

subsection \<open>Predicates and reference definitions used in the statements\<close>

text \<open>\<^verbatim>\<open>isinstance(state, int)\<close> and \<^verbatim>\<open>isinstance(parentstates, dict)\<close>.\<close>

fun isinstance_int :: "pyval \<Rightarrow> bool" where
  "isinstance_int (PInt _) = True"
| "isinstance_int _ = False"

fun isinstance_dict :: "pyarg \<Rightarrow> bool" where
  "isinstance_dict (ADict _) = True"
| "isinstance_dict _ = False"

text \<open>
  A dictionary assigns an in-range value to the parent \<open>p\<close> of cardinality \<open>c\<close>: an
  integer state index \<open>k\<close> with \<open>0 \<le> k < c\<close>; \<open>assigned\<close> is that index.
\<close>

definition in_range :: "pydict \<Rightarrow> string \<Rightarrow> int \<Rightarrow> bool" where
  "in_range ps p c =
     (case ps (KStr p) of
        Some (PInt k) \<Rightarrow> 0 \<le> k \<and> k < c
      | Some (PNpInt k) \<Rightarrow> 0 \<le> k \<and> k < c
      | _ \<Rightarrow> False)"

definition assigned :: "pydict \<Rightarrow> string \<Rightarrow> int" where
  "assigned ps p =
     (case ps (KStr p) of Some (PInt k) \<Rightarrow> k | Some (PNpInt k) \<Rightarrow> k | _ \<Rightarrow> 0)"

text \<open>
  The column of the specification: the sum over the positions \<open>i\<close> of the parents of
  the value assigned to parent \<open>i\<close> times the product of the cardinalities of the
  parents listed before it.
\<close>

definition column_spec :: "variable \<Rightarrow> pydict \<Rightarrow> int" where
  "column_spec v ps =
     (\<Sum>i\<leftarrow>[0..<length (parents v)].
        assigned ps (parents v ! i) * prod_list (take i (no_parent_states v)))"

text \<open>
  The edges of a network as pairs (parent, child), and a network with a cycle: one of
  its variables reaches itself along one or more edges.
\<close>

definition edge_pairs :: "network \<Rightarrow> (variable \<times> variable) list" where
  "edge_pairs bn =
     concat (map (\<lambda>p. map (Pair p) (dd_get (edges bn) p)) (map fst (edges bn)))"

definition cyclic :: "network \<Rightarrow> bool" where
  "cyclic bn = (\<exists>v \<in> set (variables_of bn). (v, v) \<in> (set (edge_pairs bn))\<^sup>+)"

text \<open>
  The reference recursion of the specification for \<^verbatim>\<open>EnumerateAll\<close>: the first
  variable of the sequence is taken, an observed variable is looked up by its name, and
  every branch of the sum extends the evidence with the state index.
\<close>

definition parentAssignmentFrom :: "pydict \<Rightarrow> string list \<Rightarrow> pydict" where
  "parentAssignmentFrom evidence parentNames =
     (\<lambda>k. case k of
             KStr p \<Rightarrow> if p \<in> set parentNames then evidence k else None
           | KObj _ \<Rightarrow> None)"

fun sum_results :: "(error + real) list \<Rightarrow> error + real" where
  "sum_results [] = Inr 0"
| "sum_results (Inl e # rs) = Inl e"
| "sum_results (Inr x # rs) = (case sum_results rs of Inl e \<Rightarrow> Inl e | Inr s \<Rightarrow> Inr (x + s))"

fun EnumerateAll_spec :: "variable list \<Rightarrow> pydict \<Rightarrow> error + real" where
  "EnumerateAll_spec [] evidence = Inr 1"
| "EnumerateAll_spec (Y # rest) evidence =
     (case evidence (KStr (name Y)) of
        Some y \<Rightarrow>
          (case probability Y y (ADict (parentAssignmentFrom evidence (parents Y))) of
             Inl e \<Rightarrow> Inl e
           | Inr p \<Rightarrow>
               (case EnumerateAll_spec rest evidence of
                  Inl e \<Rightarrow> Inl e
                | Inr r \<Rightarrow> Inr (p * r)))
      | None \<Rightarrow>
          sum_results
            (map (\<lambda>y.
                case probability Y (PInt y) (ADict (parentAssignmentFrom evidence (parents Y))) of
                  Inl e \<Rightarrow> Inl e
                | Inr p \<Rightarrow>
                    (case EnumerateAll_spec rest (evidence(KStr (name Y) \<mapsto> PInt y)) of
                       Inl e \<Rightarrow> Inl e
                     | Inr r \<Rightarrow> Inr (p * r)))
              [0..no_states Y - 1]))"

text \<open>
  The specification of \<^verbatim>\<open>_enumeration_ask\<close>, for a given enumeration function: the
  weight of every state \<open>x\<close> is computed on the full order and on the evidence in which
  the name \<open>X\<close> is bound to \<open>x\<close> before the call; the weights are then normalized
  as the specification says: weights that sum to zero fail with
  \<open>ZeroProbabilityEvidence\<close>, all others are divided by their sum.
\<close>

definition Normalize_spec :: "real list \<Rightarrow> error + real list" where
  "Normalize_spec weights =
     (let z = sum_list weights in
      if z = 0 then Inl ZeroProbabilityEvidence else Inr (map (\<lambda>w. w / z) weights))"

definition EnumerationAsk_spec ::
  "(variable list \<Rightarrow> pydict \<Rightarrow> error + real) \<Rightarrow> engine \<Rightarrow> string \<Rightarrow> pydict \<Rightarrow> error + real list" where
  "EnumerationAsk_spec enum eng X evidence =
     (case map_of (variables (bayesian_network eng)) X of
        None \<Rightarrow> Inl KeyError
      | Some x_variable \<Rightarrow>
          (case topo_order eng of
             Returned_None \<Rightarrow> Inl AttributeError
           | Sorted order \<Rightarrow>
               (case collect_results
                       (map (\<lambda>x. enum order (evidence(KStr X \<mapsto> PInt x)))
                          [0..no_states x_variable - 1]) of
                  Inl e \<Rightarrow> Inl e
                | Inr weight \<Rightarrow> Normalize_spec weight)))"

subsection \<open>Example variables and networks\<close>

text \<open>The two-variable chain: \<open>A\<close> with prior \<open>[0.8, 0.2]\<close> and its child \<open>B\<close>.\<close>

definition var_A :: variable where
  "var_A = \<lparr>name = ''A'', no_states = 2, table = [[8/10], [2/10]], parents = [],
            no_parent_states = []\<rparr>"

definition var_B :: variable where
  "var_B = \<lparr>name = ''B'', no_states = 2, table = [[5/10, 2/10], [5/10, 8/10]],
            parents = [''A''], no_parent_states = [2]\<rparr>"

definition single_bn :: network where
  "single_bn = \<lparr>variables = [(''A'', var_A)], edges = []\<rparr>"

definition chain_bn :: network where
  "chain_bn = \<lparr>variables = [(''A'', var_A), (''B'', var_B)], edges = [(var_A, [var_B])]\<rparr>"

text \<open>The other two variables of the network that \<^verbatim>\<open>main\<close> builds, and that network.\<close>

definition var_C :: variable where
  "var_C = \<lparr>name = ''C'', no_states = 2, table = [[1/10, 3/10], [9/10, 7/10]],
            parents = [''B''], no_parent_states = [2]\<rparr>"

definition var_D :: variable where
  "var_D = \<lparr>name = ''D'', no_states = 2, table = [[6/10, 8/10], [4/10, 2/10]],
            parents = [''B''], no_parent_states = [2]\<rparr>"

definition main_bn :: network where
  "main_bn =
     \<lparr>variables = [(''A'', var_A), (''B'', var_B), (''C'', var_C), (''D'', var_D)],
      edges = [(var_A, [var_B]), (var_B, [var_C, var_D])]\<rparr>"

text \<open>The variable of the docstring of \<^verbatim>\<open>Variable.__init__\<close>.\<close>

definition var_event :: variable where
  "var_event =
     \<lparr>name = ''event'', no_states = 3,
      table = [[2/10, 2/10, 7/10, 0, 2/10, 4/10],
               [3/10, 8/10, 2/10, 0, 2/10, 4/10],
               [5/10, 0, 1/10, 1, 6/10, 2/10]],
      parents = [''cond0'', ''cond1''], no_parent_states = [3, 2]\<rparr>"

text \<open>A variable that lists the same parent name twice.\<close>

definition var_dup :: variable where
  "var_dup =
     \<lparr>name = ''X'', no_states = 2,
      table = [[1/10, 2/10, 3/10, 4/10], [9/10, 8/10, 7/10, 6/10]],
      parents = [''P'', ''P''], no_parent_states = [2, 2]\<rparr>"

text \<open>
  A variable with one column whose parent cardinalities have the product \<open>2\<^sup>6\<^sup>4 + 1\<close>,
  which is 1 in \<^verbatim>\<open>int64\<close>.
\<close>

definition var_wrap :: variable where
  "var_wrap =
     \<lparr>name = ''X'', no_states = 2, table = [[8/10], [2/10]],
      parents = [''P'', ''Q''], no_parent_states = [274177, 67280421310721]\<rparr>"

text \<open>A second variable named \<open>A\<close>, with another table.\<close>

definition var_A2 :: variable where
  "var_A2 = \<lparr>name = ''A'', no_states = 2, table = [[3/10], [7/10]], parents = [],
             no_parent_states = []\<rparr>"

text \<open>
  Two networks with a cycle: \<open>P \<rightarrow> Q \<rightarrow> P\<close>, and \<open>A \<rightarrow> Q'\<close> with \<open>Q' \<rightarrow> R \<rightarrow> Q'\<close>.
\<close>

definition var_P :: variable where
  "var_P = \<lparr>name = ''P'', no_states = 2, table = [[5/10, 2/10], [5/10, 8/10]],
            parents = [''Q''], no_parent_states = [2]\<rparr>"

definition var_Q :: variable where
  "var_Q = \<lparr>name = ''Q'', no_states = 2, table = [[1/10, 3/10], [9/10, 7/10]],
            parents = [''P''], no_parent_states = [2]\<rparr>"

definition cycle_bn :: network where
  "cycle_bn =
     \<lparr>variables = [(''P'', var_P), (''Q'', var_Q)],
      edges = [(var_P, [var_Q]), (var_Q, [var_P])]\<rparr>"

definition var_Q' :: variable where
  "var_Q' = \<lparr>name = ''Q'', no_states = 2,
             table = [[1/10, 2/10, 3/10, 4/10], [9/10, 8/10, 7/10, 6/10]],
             parents = [''A'', ''R''], no_parent_states = [2, 2]\<rparr>"

definition var_R :: variable where
  "var_R = \<lparr>name = ''R'', no_states = 2, table = [[1/10, 3/10], [9/10, 7/10]],
            parents = [''Q''], no_parent_states = [2]\<rparr>"

definition rooted_cycle_bn :: network where
  "rooted_cycle_bn =
     \<lparr>variables = [(''A'', var_A), (''Q'', var_Q'), (''R'', var_R)],
      edges = [(var_A, [var_Q']), (var_Q', [var_R]), (var_R, [var_Q'])]\<rparr>"

text \<open>
  A network is built, as in \<^verbatim>\<open>main\<close> and \<^verbatim>\<open>problem3c\<close>, by a sequence of calls of
  \<^verbatim>\<open>add_variable\<close> and \<^verbatim>\<open>add_edge\<close>; the first call that raises ends the run.
\<close>

datatype build_step = Add_variable variable | Add_edge variable variable

fun build :: "network \<Rightarrow> build_step list \<Rightarrow> error + network" where
  "build bn [] = Inr bn"
| "build bn (Add_variable v # steps) =
     (case add_variable bn (PObj v) of Inl e \<Rightarrow> Inl e | Inr bn' \<Rightarrow> build bn' steps)"
| "build bn (Add_edge p c # steps) =
     (case add_edge bn p c of Inl e \<Rightarrow> Inl e | Inr bn' \<Rightarrow> build bn' steps)"

section \<open>Properties\<close>

subsection \<open>Type guards of probability\<close>

text \<open>
  Claim C10. If \<^verbatim>\<open>state\<close> is not a Python int (a numpy integer or a float, whatever its
  value) or \<^verbatim>\<open>parentstates\<close> is not a dictionary, \<^verbatim>\<open>probability\<close> raises
  \<^verbatim>\<open>TypeError\<close>: whatever the variable, its table, the value of the state and the
  contents of the dictionary are, so neither the range check on the state nor the
  presence check of the parents nor the table is reached.
\<close>

theorem probability_type_guards:
  "\<not> isinstance_int state \<or> \<not> isinstance_dict parentstates \<Longrightarrow>
   probability v state parentstates = Inl TypeError"
  by (cases state; cases parentstates) (auto simp: probability_def)

text \<open>
  A numpy integer that is out of range and a dictionary without the parents: the
  result is \<^verbatim>\<open>TypeError\<close>, where a Python int would get \<^verbatim>\<open>ValueError\<close>.
\<close>

theorem probability_type_guards_witness:
  "\<not> isinstance_int (PNpInt 7) \<and>
   probability var_B (PNpInt 7) (ADict Map.empty) = Inl TypeError \<and>
   probability var_B (PInt 7) (ADict Map.empty) = Inl ValueError"
  using probability_type_guards [of "PNpInt 7" "ADict Map.empty" var_B]
  by (simp add: probability_def var_B_def)

subsection \<open>The loops of sorted\_nodes\<close>

text \<open>
  One pass through the inner loop leaves the list of \<^verbatim>\<open>edge_dict[n_parent]\<close> as long
  as it was: the child that was removed is appended again.
\<close>

lemma dd_get_inner_body:
  "dd_get (edge_dict (inner_body n c os st)) n = remove1 c (c # os) @ [c]"
  by (simp add: inner_body_def Let_def dd_get_def update_conv')

text \<open>So the inner loop returns only when it is never entered.\<close>

lemma inner_while_Some_empty:
  assumes "inner_while n st = Some st'"
  shows "dd_get (edge_dict st) n = []"
proof (rule inner_while.raw_induct
    [where P = "\<lambda>n st st'. dd_get (edge_dict st) n = []", OF _ assms], goal_cases)
  case (1 inner n st st')
  show ?case
  proof (cases "dd_get (edge_dict st) n")
    case Nil
    then show ?thesis by simp
  next
    case (Cons c os)
    with 1(2) have "inner n (inner_body n c os st) = Some st'" by simp
    from 1(1)[OF this] have "dd_get (edge_dict (inner_body n c os st)) n = []" .
    then show ?thesis by (simp add: dd_get_inner_body)
  qed
qed

lemma inner_while_cases:
  "inner_while n st =
     (if dd_get (edge_dict st) n = [] then Some (st\<lparr>edge_dict := dd_touch (edge_dict st) n\<rparr>)
      else None)"
proof (cases "dd_get (edge_dict st) n = []")
  case True
  then show ?thesis by (subst inner_while.simps) simp
next
  case False
  then show ?thesis using inner_while_Some_empty by (cases "inner_while n st") auto
qed

lemma dd_get_touch: "dd_get (dd_touch d k) k' = dd_get d k'"
  by (auto simp: dd_get_def dd_touch_def split: option.splits if_splits)

lemma outer_while_step:
  "outer_while st =
     (if s_origin_nodes st = [] then Some st
      else if dd_get (edge_dict st) (last (s_origin_nodes st)) \<noteq> [] then None
      else outer_while
             (st\<lparr>s_origin_nodes := butlast (s_origin_nodes st),
                 l_sorted := l_sorted st @ [last (s_origin_nodes st)],
                 edge_dict := dd_touch (edge_dict st) (last (s_origin_nodes st))\<rparr>))"
  by (subst outer_while.simps) (simp add: inner_while_cases)

text \<open>
  The outer loop in closed form: it does not return when some origin node has a
  child, and otherwise moves the origin nodes to \<^verbatim>\<open>l_sorted\<close>, last one first, and
  leaves \<^verbatim>\<open>children_of_variable\<close> as it was.
\<close>

lemma outer_while_closed:
  "outer_while st =
     (if \<exists>v \<in> set (s_origin_nodes st). dd_get (edge_dict st) v \<noteq> [] then None
      else Some (st\<lparr>s_origin_nodes := [],
                   l_sorted := l_sorted st @ rev (s_origin_nodes st),
                   edge_dict :=
                     fold (\<lambda>v d. dd_touch d v) (rev (s_origin_nodes st)) (edge_dict st)\<rparr>))"
proof (induction "s_origin_nodes st" arbitrary: st rule: rev_induct)
  case Nil
  then show ?case by (subst outer_while_step) simp
next
  case (snoc x xs)
  have eq: "s_origin_nodes st = xs @ [x]" using snoc(2) by simp
  define st1 where "st1 = st\<lparr>s_origin_nodes := xs, l_sorted := l_sorted st @ [x],
    edge_dict := dd_touch (edge_dict st) x\<rparr>"
  have xs: "xs = s_origin_nodes st1" by (simp add: st1_def)
  note IH = snoc(1)[OF xs]
  have step: "outer_while st = (if dd_get (edge_dict st) x \<noteq> [] then None else outer_while st1)"
    by (subst outer_while_step) (simp add: eq st1_def)
  show ?case
    unfolding step IH by (auto simp: eq st1_def dd_get_touch)
qed

text \<open>
  What \<^verbatim>\<open>sorted_nodes\<close> does on every network: it does not return when a variable
  without parents has a child; it returns the empty list on the empty network; on
  every other network the last loop looks the first variable up in the empty
  dictionary \<^verbatim>\<open>children_of_variable\<close> and raises \<^verbatim>\<open>KeyError\<close>.
\<close>

lemma sorted_nodes_closed:
  "sorted_nodes bn =
     (if \<exists>v \<in> set (variables_of bn). parents v = [] \<and> dd_get (edges bn) v \<noteq> [] then None
      else if variables_of bn = [] then Some (Inr (Sorted []))
      else Some (Inl KeyError))"
proof -
  have k: "vs \<noteq> [] \<Longrightarrow> cycle_check [] vs order = Inl KeyError" for vs order
    by (cases vs) auto
  show ?thesis
    by (auto simp: sorted_nodes_def outer_while_closed k)
qed

lemma sorted_nodes_empty: "sorted_nodes BayesianNetwork_init = Some (Inr (Sorted []))"
  by (simp add: sorted_nodes_closed variables_of_def BayesianNetwork_init_def
      List.map_filter_simps)

lemma sorted_nodes_single: "sorted_nodes single_bn = Some (Inl KeyError)"
  by (simp add: sorted_nodes_closed variables_of_def single_bn_def List.map_filter_simps
      dd_get_def)

lemma variables_of_chain_bn: "variables_of chain_bn = [var_A, var_B]"
  by (simp add: variables_of_def chain_bn_def List.map_filter_simps)

lemma variables_of_main_bn: "variables_of main_bn = [var_A, var_B, var_C, var_D]"
  by (simp add: variables_of_def main_bn_def List.map_filter_simps)

lemma sorted_nodes_chain: "sorted_nodes chain_bn = None"
  by (simp add: sorted_nodes_closed variables_of_chain_bn)
    (simp add: chain_bn_def dd_get_def var_A_def)

lemma sorted_nodes_cycle: "sorted_nodes cycle_bn = Some (Inl KeyError)"
  by (simp add: sorted_nodes_closed variables_of_def cycle_bn_def List.map_filter_simps
      dd_get_def var_P_def var_Q_def)

lemma sorted_nodes_rooted_cycle: "sorted_nodes rooted_cycle_bn = None"
  by (simp add: sorted_nodes_closed variables_of_def rooted_cycle_bn_def
      List.map_filter_simps dd_get_def var_A_def var_Q'_def var_R_def)

lemma cyclic_cycle_bn: "cyclic cycle_bn"
proof -
  have "(var_P, var_Q) \<in> set (edge_pairs cycle_bn)"
    "(var_Q, var_P) \<in> set (edge_pairs cycle_bn)"
    by (simp_all add: edge_pairs_def cycle_bn_def dd_get_def var_P_def var_Q_def)
  then have "(var_P, var_P) \<in> (set (edge_pairs cycle_bn))\<^sup>+"
    by (rule trancl_into_trancl[OF r_into_trancl])
  moreover have "var_P \<in> set (variables_of cycle_bn)"
    by (simp add: variables_of_def cycle_bn_def List.map_filter_simps)
  ultimately show ?thesis unfolding cyclic_def by blast
qed

lemma cyclic_rooted_cycle_bn: "cyclic rooted_cycle_bn"
proof -
  have "(var_Q', var_R) \<in> set (edge_pairs rooted_cycle_bn)"
    "(var_R, var_Q') \<in> set (edge_pairs rooted_cycle_bn)"
    by (simp_all add: edge_pairs_def rooted_cycle_bn_def dd_get_def var_A_def var_Q'_def
        var_R_def)
  then have "(var_Q', var_Q') \<in> (set (edge_pairs rooted_cycle_bn))\<^sup>+"
    by (rule trancl_into_trancl[OF r_into_trancl])
  moreover have "var_Q' \<in> set (variables_of rooted_cycle_bn)"
    by (simp add: variables_of_def rooted_cycle_bn_def List.map_filter_simps)
  ultimately show ?thesis unfolding cyclic_def by blast
qed

subsection \<open>Topological order\<close>

text \<open>
  Claim C4 says that on every acyclic network \<^verbatim>\<open>sorted_nodes\<close> returns a sequence in
  which every parent comes before its children, ties broken by name. The code does
  not: on the network that \<^verbatim>\<open>main\<close> builds, \<open>A \<rightarrow> B\<close>, \<open>B \<rightarrow> C\<close>, \<open>B \<rightarrow> D\<close>, the inner
  loop puts every child it removes back into the list and the call never returns.
\<close>

theorem sorted_nodes_main_diverges: "sorted_nodes main_bn = None"
  by (simp add: sorted_nodes_closed variables_of_main_bn)
    (simp add: main_bn_def dd_get_def var_A_def)

text \<open>
  Claim C5 says that on every acyclic network with at least one edge
  \<^verbatim>\<open>sorted_nodes\<close> terminates and returns every variable once. On the chain \<open>A \<rightarrow> B\<close>
  the call does not terminate; and on the network that holds \<open>A\<close> alone it raises
  \<^verbatim>\<open>KeyError\<close>: only the empty network gets a sequence.
\<close>

theorem sorted_nodes_chain_diverges:
  "sorted_nodes chain_bn = None \<and> sorted_nodes single_bn = Some (Inl KeyError)"
  by (simp add: sorted_nodes_chain sorted_nodes_single)

text \<open>
  Claim C6 says that on a network with a cycle \<^verbatim>\<open>sorted_nodes\<close> fails with a
  \<^verbatim>\<open>CycleDetected\<close> error that is reported to the caller. The code does not get to
  report a cycle: its last loop, which is to print the message and return \<^verbatim>\<open>None\<close>,
  looks every variable up in \<^verbatim>\<open>children_of_variable\<close>, a plain dictionary that is
  still empty. On the cycle \<open>P \<rightarrow> Q \<rightarrow> P\<close> the call raises \<^verbatim>\<open>KeyError\<close>; on a cycle
  below a root, \<open>A \<rightarrow> Q\<close> with \<open>Q \<rightarrow> R \<rightarrow> Q\<close>, it never returns, as on the acyclic
  networks above.
\<close>

theorem sorted_nodes_cycle_not_detected:
  "cyclic cycle_bn \<and> sorted_nodes cycle_bn = Some (Inl KeyError) \<and>
   cyclic rooted_cycle_bn \<and> sorted_nodes rooted_cycle_bn = None"
  by (simp add: cyclic_cycle_bn cyclic_rooted_cycle_bn sorted_nodes_cycle
      sorted_nodes_rooted_cycle)

subsection \<open>Normalization\<close>

lemma collect_results_Inr: "collect_results (map (\<lambda>w. Inr (g w)) ws) = Inr (map g ws)"
  by (induction ws) simp_all

lemma collect_results_Inl: "ws \<noteq> [] \<Longrightarrow> collect_results (map (\<lambda>w. Inl e) ws) = Inl e"
  by (cases ws) simp_all

lemma sum_list_divide:
  "sum_list (map (\<lambda>w. f w / z) ws) = sum_list (map f ws) / (z :: real)"
  by (induction ws) (simp_all add: add_divide_distrib)

lemma py_truediv_numpy: "py_truediv w (NpNum z) = Inr (np_divide (weight_value w) z)"
  by (cases w) simp_all

text \<open>With a \<^verbatim>\<open>float64\<close> among the weights every division is numpy's and none raises.\<close>

lemma normalize_numpy:
  "list_ex is_numpy ws \<Longrightarrow>
   normalize ws = Inr (map (\<lambda>w. np_divide (weight_value w) (sum_list (map weight_value ws))) ws)"
  by (simp add: normalize_def py_sum_def py_truediv_numpy collect_results_Inr)

text \<open>Python numbers alone: the first division by a zero sum raises.\<close>

lemma normalize_python:
  assumes "\<not> list_ex is_numpy ws"
  shows "normalize ws =
     (if ws = [] then Inr []
      else if sum_list (map weight_value ws) = 0 then Inl ZeroDivisionError
      else Inr (map (\<lambda>w. PyQuot (weight_value w / sum_list (map weight_value ws))) ws))"
proof -
  let ?z = "sum_list (map weight_value ws)"
  have py: "\<exists>x. w = PyNum x" if "w \<in> set ws" for w
    using assms that by (cases w) (auto simp: list_ex_iff)
  have pt: "py_truediv w (PyNum z) =
      (if z = 0 then Inl ZeroDivisionError else Inr (PyQuot (weight_value w / z)))"
    if "w \<in> set ws" for w z
    using py[OF that] by auto
  have zero: "?z = 0 \<Longrightarrow>
      map (\<lambda>w. py_truediv w (PyNum ?z)) ws = map (\<lambda>w. Inl ZeroDivisionError) ws"
    by (rule map_cong) (simp_all add: pt)
  have nonzero: "?z \<noteq> 0 \<Longrightarrow>
      map (\<lambda>w. py_truediv w (PyNum ?z)) ws = map (\<lambda>w. Inr (PyQuot (weight_value w / ?z))) ws"
    by (rule map_cong) (simp_all add: pt)
  have n: "normalize ws = collect_results (map (\<lambda>w. py_truediv w (PyNum ?z)) ws)"
    using assms by (simp add: normalize_def py_sum_def)
  show ?thesis
  proof (cases "?z = 0")
    case True
    have "normalize ws = collect_results (map (\<lambda>w. Inl ZeroDivisionError) ws)"
      unfolding n by (simp only: zero[OF True])
    with True show ?thesis
      by (cases "ws = []") (simp_all add: collect_results_Inl)
  next
    case False
    have "normalize ws = collect_results (map (\<lambda>w. Inr (PyQuot (weight_value w / ?z))) ws)"
      unfolding n by (simp only: nonzero[OF False])
    with False show ?thesis
      by (cases "ws = []") (simp_all add: collect_results_Inr)
  qed
qed

text \<open>
  Claim C7 says that \<^verbatim>\<open>normalize\<close> fails with \<^verbatim>\<open>ZeroProbabilityEvidence\<close> when the
  weights sum to zero, and never returns \<^verbatim>\<open>nan\<close>. The code has no such guard. Two zero
  weights of type \<^verbatim>\<open>float64\<close>, which is what the enumeration computes from the tables,
  come back as two \<^verbatim>\<open>nan\<close>; the empty list, whose sum is zero, is returned as it is;
  two zero weights that are Python numbers raise \<^verbatim>\<open>ZeroDivisionError\<close>.
\<close>

theorem normalize_zero_counterexample:
  "normalize [NpNum 0, NpNum 0] = Inr [NpNan, NpNan] \<and>
   normalize [] = Inr [] \<and>
   normalize [PyNum 0, PyNum 0] = Inl ZeroDivisionError"
  by (simp add: normalize_def py_sum_def np_divide_def)

text \<open>
  Claim C7, amended. Let \<open>z\<close> be the sum of the weights. When \<open>z\<close> is not zero,
  \<^verbatim>\<open>normalize\<close> returns exactly the list of the \<open>w / z\<close>, which has the length of the
  weights and sums to one. When \<open>z\<close> is zero no \<^verbatim>\<open>ZeroProbabilityEvidence\<close> is
  raised: the empty list is returned as it is; a non-empty list of Python numbers
  raises \<^verbatim>\<open>ZeroDivisionError\<close>; a list that holds a \<^verbatim>\<open>float64\<close> raises nothing and
  is returned as a list of the same length that holds \<^verbatim>\<open>nan\<close> for every zero
  weight, \<^verbatim>\<open>inf\<close> for every positive and \<^verbatim>\<open>-inf\<close> for every negative one.
\<close>

theorem normalize_amended:
  "(sum_list (map weight_value ws) \<noteq> 0 \<longrightarrow>
      normalize ws =
        Inr (map (\<lambda>w. (if list_ex is_numpy ws then NpQuot else PyQuot)
                        (weight_value w / sum_list (map weight_value ws))) ws) \<and>
      sum_list (map (\<lambda>w. weight_value w / sum_list (map weight_value ws)) ws) = 1) \<and>
   (ws = [] \<longrightarrow> normalize ws = Inr []) \<and>
   (ws \<noteq> [] \<and> sum_list (map weight_value ws) = 0 \<and> \<not> list_ex is_numpy ws \<longrightarrow>
      normalize ws = Inl ZeroDivisionError) \<and>
   (sum_list (map weight_value ws) = 0 \<and> list_ex is_numpy ws \<longrightarrow>
      normalize ws =
        Inr (map (\<lambda>w. if weight_value w = 0 then NpNan
                       else if 0 < weight_value w then NpInf else NpNegInf) ws)) \<and>
   (\<forall>q. normalize ws = Inr q \<longrightarrow> length q = length ws) \<and>
   normalize ws \<noteq> Inl ZeroProbabilityEvidence"
proof (cases "list_ex is_numpy ws")
  case True
  then have "ws \<noteq> []" by auto
  with True show ?thesis
    by (auto simp: normalize_numpy np_divide_def sum_list_divide)
next
  case False
  then show ?thesis
    by (auto simp: normalize_python sum_list_divide)
qed

theorem normalize_amended_witness:
  "normalize [] = Inr [] \<and>
   normalize [PyNum 0, PyNum 0] = Inl ZeroDivisionError \<and>
   normalize [NpNum 0, NpNum 2, NpNum (- 2)] = Inr [NpNan, NpInf, NpNegInf] \<and>
   normalize [NpNum 1, NpNum 3] = Inr [NpQuot (1 / 4), NpQuot (3 / 4)] \<and>
   normalize [PyNum 1, PyNum 3] = Inr [PyQuot (1 / 4), PyQuot (3 / 4)] \<and>
   sum_list [1 / 4, 3 / 4 :: real] = 1"
  using normalize_amended [of "[]"] normalize_amended [of "[PyNum 0, PyNum 0]"]
    normalize_amended [of "[NpNum 0, NpNum 2, NpNum (- 2)]"]
    normalize_amended [of "[NpNum 1, NpNum 3]"] normalize_amended [of "[PyNum 1, PyNum 3]"]
  by simp

subsection \<open>Registering a variable\<close>

text \<open>
  Claim C9 says that \<^verbatim>\<open>add_variable\<close> fails with \<^verbatim>\<open>DuplicateVariable\<close> when the name
  is registered already. The code has no such check: a second variable named \<open>A\<close> is
  accepted and takes the place of the first.
\<close>

theorem add_variable_duplicate_counterexample:
  "map_of (variables single_bn) (name var_A2) = Some var_A \<and> var_A2 \<noteq> var_A \<and>
   add_variable single_bn (PObj var_A2) = Inr \<lparr>variables = [(''A'', var_A2)], edges = []\<rparr>"
  by (simp add: single_bn_def var_A2_def var_A_def)

text \<open>
  Claim C9, amended. For a \<^verbatim>\<open>Variable\<close> whose name is registered already
  \<^verbatim>\<open>add_variable\<close> succeeds: the name is bound to the new variable, every other name
  keeps its variable, the order of the names and the edges are unchanged.
\<close>

theorem add_variable_replaces:
  "name v \<in> fst ` set (variables bn) \<Longrightarrow>
   (\<exists>bn'. add_variable bn (PObj v) = Inr bn' \<and>
      map_of (variables bn') = (map_of (variables bn))(name v \<mapsto> v) \<and>
      map fst (variables bn') = map fst (variables bn) \<and>
      edges bn' = edges bn)"
  by (auto simp: update_conv' update_keys)

theorem add_variable_replaces_witness:
  "name var_A2 \<in> fst ` set (variables single_bn) \<and>
   (\<exists>bn'. add_variable single_bn (PObj var_A2) = Inr bn' \<and>
      map_of (variables bn') = (map_of (variables single_bn))(name var_A2 \<mapsto> var_A2) \<and>
      map fst (variables bn') = map fst (variables single_bn) \<and>
      edges bn' = edges single_bn)"
proof -
  have h: "name var_A2 \<in> fst ` set (variables single_bn)"
    by (simp add: single_bn_def var_A2_def)
  show ?thesis using h add_variable_replaces [OF h] by simp
qed

subsection \<open>End to end\<close>

text \<open>
  Claim C3 says that on the chain \<open>A \<rightarrow> B\<close> the query of \<open>A\<close> without evidence returns
  \<open>[0.8, 0.2]\<close>. In the code the constructor of the engine calls \<^verbatim>\<open>sorted_nodes\<close>,
  which never returns on this network, so the query is never reached.
\<close>

theorem build_and_query_chain_diverges:
  "build_and_query chain_bn ''A'' Map.empty = None"
  by (simp add: build_and_query_def InferenceByEnumeration_init_def sorted_nodes_chain)

subsection \<open>Evaluating the enumeration on the chain\<close>

lemma upto_0_1: "[0..(1::int)] = [0, 1]"
  by (simp add: upto.simps)

lemma prob_A0: "probability var_A (PInt 0) (ADict ev) = Inr (8/10)"
  by (simp add: probability_def var_A_def np_getitem2_def np_index_def py_int_def)

lemma prob_A1: "probability var_A (PInt 1) (ADict ev) = Inr (2/10)"
  by (simp add: probability_def var_A_def np_getitem2_def np_index_def py_int_def)

lemma fields_A: "no_states var_A = 2" "parents var_A = []" "name var_A = ''A''"
  by (simp_all add: var_A_def)

lemma fields_B: "no_states var_B = 2" "parents var_B = [''A'']" "name var_B = ''B''"
  by (simp_all add: var_B_def)

lemma get_parents_A: "get_parents bn var_A = Inr []"
  by (simp add: get_parents_def fields_A)

lemma enumerate_all_A:
  "ev (KObj var_A) = None \<Longrightarrow> enumerate_all bn [var_A] ev = Inr 1"
  by (simp add: get_parents_def fields_A upto_0_1 prob_A0 prob_A1)

lemma spec_single:
  "EnumerateAll_spec [var_A] [KStr ''A'' \<mapsto> PInt 1] = Inr (2/10)"
  by (simp add: fields_A prob_A1)

lemma prob_B_missing:
  "ev (KStr ''A'') = None \<Longrightarrow> probability var_B (PInt 0) (ADict ev) = Inl ValueError"
  by (simp add: probability_def var_B_def)

lemma prob_B_0:
  assumes "ev (KStr ''A'') = Some (PInt 0)"
  shows "probability var_B (PInt 0) (ADict ev) = Inr (5/10)"
    and "probability var_B (PInt 1) (ADict ev) = Inr (5/10)"
  using assms
  by (simp_all add: probability_def var_B_def np_getitem2_def np_index_def py_int_def
      list_index_def np_prod_def)

lemma prob_B_1:
  assumes "ev (KStr ''A'') = Some (PInt 1)"
  shows "probability var_B (PInt 0) (ADict ev) = Inr (2/10)"
    and "probability var_B (PInt 1) (ADict ev) = Inr (8/10)"
  using assms
  by (simp_all add: probability_def var_B_def np_getitem2_def np_index_def py_int_def
      list_index_def np_prod_def)

lemma get_parents_B: "get_parents chain_bn var_B = Inr [var_A]"
  by (simp add: get_parents_def chain_bn_def fields_B)

lemma enum_chain_missing:
  "enumerate_all chain_bn [var_A, var_B] Map.empty = Inl ValueError"
  by (simp add: get_parents_B fields_B upto_0_1 prob_B_missing)

lemma map_of_chain_A: "map_of (variables chain_bn) ''A'' = Some var_A"
  by (simp add: chain_bn_def)

lemma ask_chain:
  "enumeration_ask \<lparr>bayesian_network = chain_bn, topo_order = Sorted [var_A, var_B]\<rparr>
     ''A'' Map.empty = Inl ValueError"
  by (simp add: enumeration_ask_def enumerate_all_weight_def map_of_chain_A fields_A upto_0_1
      enum_chain_missing del: enumerate_all.simps)

lemma enum_chain_0:
  "enumerate_all chain_bn [var_A, var_B] [KStr ''A'' \<mapsto> PInt 0] = Inr 1"
  by (simp add: get_parents_B get_parents_A fields_B fields_A upto_0_1 prob_B_0 prob_A0
      prob_A1)

lemma enum_chain_1:
  "enumerate_all chain_bn [var_A, var_B] [KStr ''A'' \<mapsto> PInt 1] = Inr 1"
  by (simp add: get_parents_B get_parents_A fields_B fields_A upto_0_1 prob_B_1 prob_A0
      prob_A1)

text \<open>
  With the order \<open>[A, B]\<close> put into the engine by hand the query still does not return
  a distribution: the first call of \<^verbatim>\<open>_enumerate_all\<close> pops \<open>B\<close>, whose parent \<open>A\<close>
  has no value in the evidence, and \<^verbatim>\<open>probability\<close> raises \<^verbatim>\<open>ValueError\<close>.
\<close>

lemma query_chain_given_order:
  "query \<lparr>bayesian_network = chain_bn, topo_order = Sorted [var_A, var_B]\<rparr> ''A'' Map.empty
     = Inl ValueError"
  by (simp add: query_def ask_chain)

text \<open>The example variables and the chain are what the constructors and methods build.\<close>

lemma var_A_built: "Variable_init ''A'' 2 [[8/10], [2/10]] [] [] = Inr var_A"
  by (simp add: Variable_init_def rectangular_def shape1_def np_prod_def np_allclose_1_def
      column_sums_def var_A_def)

lemma var_B_built:
  "Variable_init ''B'' 2 [[5/10, 2/10], [5/10, 8/10]] [''A''] [2] = Inr var_B"
  by (simp add: Variable_init_def rectangular_def shape1_def np_prod_def int64_wrap_def
      np_allclose_1_def column_sums_def var_B_def upt_conv_Cons)

lemma example_variables_valid:
  "valid_variable var_A" "valid_variable var_B" "valid_variable var_C" "valid_variable var_D"
  "valid_variable var_A2" "valid_variable var_P" "valid_variable var_Q" "valid_variable var_Q'"
  "valid_variable var_R"
  by (simp_all add: valid_variable_def Variable_init_def rectangular_def shape1_def np_prod_def
      int64_wrap_def np_allclose_1_def column_sums_def upt_conv_Cons var_A_def var_B_def
      var_C_def var_D_def var_A2_def var_P_def var_Q_def var_Q'_def var_R_def)

lemma chain_bn_built:
  "build BayesianNetwork_init [Add_variable var_A, Add_variable var_B, Add_edge var_A var_B]
     = Inr chain_bn"
  by (simp add: BayesianNetwork_init_def add_edge_def chain_bn_def dd_get_def var_A_def
      var_B_def)

lemma main_bn_built:
  "build BayesianNetwork_init
     [Add_variable var_A, Add_variable var_B, Add_variable var_C, Add_variable var_D,
      Add_edge var_A var_B, Add_edge var_B var_C, Add_edge var_B var_D]
     = Inr main_bn"
  by (simp add: BayesianNetwork_init_def add_edge_def main_bn_def dd_get_def var_A_def
      var_B_def var_C_def var_D_def)

lemma cycle_bn_built:
  "build BayesianNetwork_init
     [Add_variable var_P, Add_variable var_Q, Add_edge var_P var_Q, Add_edge var_Q var_P]
     = Inr cycle_bn"
  by (simp add: BayesianNetwork_init_def add_edge_def cycle_bn_def dd_get_def var_P_def
      var_Q_def)

lemma rooted_cycle_bn_built:
  "build BayesianNetwork_init
     [Add_variable var_A, Add_variable var_Q', Add_variable var_R,
      Add_edge var_A var_Q', Add_edge var_Q' var_R, Add_edge var_R var_Q']
     = Inr rooted_cycle_bn"
  by (simp add: BayesianNetwork_init_def add_edge_def rooted_cycle_bn_def dd_get_def var_A_def
      var_Q'_def var_R_def)

lemma single_bn_built: "build BayesianNetwork_init [Add_variable var_A] = Inr single_bn"
  by (simp add: BayesianNetwork_init_def single_bn_def fields_A)

subsection \<open>Enumeration\<close>

lemma ask_spec_code:
  "EnumerationAsk_spec (enumerate_all chain_bn)
     \<lparr>bayesian_network = chain_bn, topo_order = Sorted [var_A, var_B]\<rparr> ''A'' Map.empty
     = Inr [1/2, 1/2]"
  by (simp add: EnumerationAsk_spec_def map_of_chain_A fields_A upto_0_1 enum_chain_0
      enum_chain_1 Normalize_spec_def del: enumerate_all.simps)

lemma spec_chain_0:
  "EnumerateAll_spec [var_A, var_B] [KStr ''A'' \<mapsto> PInt 0] = Inr (8/10)"
  by (simp add: fields_A fields_B upto_0_1 prob_A0 prob_B_0 parentAssignmentFrom_def)

lemma spec_chain_1:
  "EnumerateAll_spec [var_A, var_B] [KStr ''A'' \<mapsto> PInt 1] = Inr (2/10)"
  by (simp add: fields_A fields_B upto_0_1 prob_A1 prob_B_1 parentAssignmentFrom_def)

lemma ask_spec_ref:
  "EnumerationAsk_spec EnumerateAll_spec
     \<lparr>bayesian_network = chain_bn, topo_order = Sorted [var_A, var_B]\<rparr> ''A'' Map.empty
     = Inr [8/10, 2/10]"
  by (simp add: EnumerationAsk_spec_def map_of_chain_A fields_A upto_0_1 spec_chain_0
      spec_chain_1 Normalize_spec_def del: EnumerateAll_spec.simps)

lemma spec_chain_empty: "EnumerateAll_spec [var_A, var_B] Map.empty = Inr 1"
  by (simp add: fields_A fields_B upto_0_1 prob_A0 prob_A1 prob_B_0 prob_B_1
      parentAssignmentFrom_def)

text \<open>
  Claim C1 says that \<^verbatim>\<open>_enumerate_all\<close> equals the reference recursion: first variable
  of the list, an observed variable looked up by its name, one extended evidence per
  branch. The code does not. With \<open>A\<close> observed in state 1 it still sums \<open>A\<close> out and
  returns 1 where the reference gives \<open>P(A = 1) = 0.2\<close>: the test
  \<^verbatim>\<open>y_variable in y_evidence\<close> looks for the object, not for the name. On \<open>[A, B]\<close>
  without evidence it takes \<open>B\<close>, the last variable, first and raises \<^verbatim>\<open>ValueError\<close>
  since its parent has no value yet, where the reference gives 1.
\<close>

theorem enumerate_all_differs:
  "enumerate_all single_bn [var_A] [KStr ''A'' \<mapsto> PInt 1] = Inr 1 \<and>
   EnumerateAll_spec [var_A] [KStr ''A'' \<mapsto> PInt 1] = Inr (2 / 10) \<and>
   enumerate_all chain_bn [var_A, var_B] Map.empty = Inl ValueError \<and>
   EnumerateAll_spec [var_A, var_B] Map.empty = Inr 1"
  by (simp add: enumerate_all_A spec_single enum_chain_missing spec_chain_empty
      del: enumerate_all.simps EnumerateAll_spec.simps)

text \<open>
  Claim C2 says that \<^verbatim>\<open>_enumeration_ask\<close> calls \<^verbatim>\<open>_enumerate_all\<close> for every state
  \<open>x\<close> on the full order and on the evidence in which the name of the query variable
  is bound to \<open>x\<close> before the call, and normalizes the weights. The code binds the
  name after the call, and to the object. On the chain with the order \<open>[A, B]\<close> and
  the query \<open>A\<close> the first call therefore finds no value for the parent of \<open>B\<close> and
  raises \<^verbatim>\<open>ValueError\<close>, where the claimed computation returns a distribution:
  \<open>[0.5, 0.5]\<close> with the \<^verbatim>\<open>_enumerate_all\<close> of the code, \<open>[0.8, 0.2]\<close> with the
  reference recursion.
\<close>

theorem enumeration_ask_differs:
  "enumeration_ask \<lparr>bayesian_network = chain_bn, topo_order = Sorted [var_A, var_B]\<rparr>
     ''A'' Map.empty = Inl ValueError \<and>
   EnumerationAsk_spec (enumerate_all chain_bn)
     \<lparr>bayesian_network = chain_bn, topo_order = Sorted [var_A, var_B]\<rparr> ''A'' Map.empty
     = Inr [1 / 2, 1 / 2] \<and>
   EnumerationAsk_spec EnumerateAll_spec
     \<lparr>bayesian_network = chain_bn, topo_order = Sorted [var_A, var_B]\<rparr> ''A'' Map.empty
     = Inr [8 / 10, 2 / 10]"
  using ask_chain ask_spec_code ask_spec_ref by simp

subsection \<open>The column of a parent assignment\<close>

lemma list_index_nth:
  assumes d: "distinct xs" and i: "i < length xs"
  shows "list_index xs (xs ! i) = i"
proof -
  have "takeWhile (\<lambda>y. y \<noteq> xs ! i) xs = take i xs"
    by (rule takeWhile_eq_take_P_nth) (use d i in \<open>auto simp: nth_eq_iff_index_eq\<close>)
  then show ?thesis using i by (simp add: list_index_def)
qed

text \<open>A value inside the range of \<^verbatim>\<open>int64\<close> is not changed by the wrap-around.\<close>

lemma int64_wrap_id:
  assumes "- (2 ^ 63) \<le> x" "x < 2 ^ 63"
  shows "int64_wrap x = x"
proof -
  have "(x + 2 ^ 63) mod 2 ^ 64 = x + 2 ^ 63"
    by (rule mod_pos_pos_trivial) (use assms in simp_all)
  then show ?thesis by (simp add: int64_wrap_def)
qed

lemma in_range_bounds:
  assumes "in_range ps p c"
  shows "0 \<le> assigned ps p" and "assigned ps p < c"
  using assms
  by (auto simp: in_range_def assigned_def split: option.splits pyval.splits)

text \<open>
  The product of a parent's value and its stride, when neither the stride nor the
  product leaves the range of \<^verbatim>\<open>int64\<close>.
\<close>

lemma in_range_py_mul:
  assumes "in_range ps p c"
    and "0 \<le> prod_list ys" "prod_list ys < 2 ^ 63" "assigned ps p * prod_list ys < 2 ^ 63"
  shows "\<exists>x. ps (KStr p) = Some x \<and>
           py_mul x (np_prod ys) = Inr (of_int (assigned ps p * prod_list ys))"
proof (cases "ys = []")
  case True
  with assms(1) show ?thesis
    by (auto simp: in_range_def assigned_def np_prod_def split: option.splits pyval.splits)
next
  case False
  have w: "int64_wrap (prod_list ys) = prod_list ys"
    using assms(2,3) by (intro int64_wrap_id) simp_all
  have "0 \<le> assigned ps p * prod_list ys"
    using in_range_bounds(1)[OF assms(1)] assms(2) by simp
  then have "int64_wrap (assigned ps p * prod_list ys) = assigned ps p * prod_list ys"
    using assms(4) by (intro int64_wrap_id) simp_all
  with False w assms(1) show ?thesis
    by (auto simp: in_range_def assigned_def np_prod_def split: option.splits pyval.splits)
qed

lemma prod_take_pos:
  fixes cs :: "int list"
  assumes "\<forall>j<length cs. 1 \<le> cs ! j"
  shows "n \<le> length cs \<Longrightarrow> 0 < prod_list (take n cs)"
proof (induction n)
  case 0
  then show ?case by simp
next
  case (Suc n)
  then have "0 < prod_list (take n cs)" "1 \<le> cs ! n" using assms by simp_all
  then have "0 < prod_list (take n cs) * cs ! n" by simp
  with Suc(2) show ?case by (simp add: take_Suc_conv_app_nth)
qed

lemma prod_take_mono:
  fixes cs :: "int list"
  assumes "\<forall>j<length cs. 1 \<le> cs ! j"
  shows "i \<le> n \<Longrightarrow> n \<le> length cs \<Longrightarrow> prod_list (take i cs) \<le> prod_list (take n cs)"
proof (induction n)
  case 0
  then show ?case by simp
next
  case (Suc n)
  show ?case
  proof (cases "i = Suc n")
    case True
    then show ?thesis by simp
  next
    case False
    with Suc have le: "prod_list (take i cs) \<le> prod_list (take n cs)" by simp
    have "0 < prod_list (take n cs)" using prod_take_pos[OF assms, of n] Suc(3) by simp
    moreover have "1 \<le> cs ! n" using assms Suc(3) by simp
    ultimately have "prod_list (take n cs) * 1 \<le> prod_list (take n cs) * cs ! n"
      by (intro mult_left_mono) simp_all
    with le Suc(3) show ?thesis by (simp add: take_Suc_conv_app_nth)
  qed
qed

text \<open>
  The loop of \<^verbatim>\<open>probability\<close> over distinct parents with in-range values, when the
  product of the cardinalities is inside \<^verbatim>\<open>int64\<close>: from position \<open>i\<close> on it adds the
  rest of the sum of the specification.
\<close>

lemma table_index_loop_suffix:
  assumes d: "distinct (parents v)"
    and r: "list_all2 (in_range ps) (parents v) (no_parent_states v)"
    and nowrap: "prod_list (no_parent_states v) < 2 ^ 63"
  shows "i \<le> length (parents v) \<Longrightarrow>
    table_index_loop v ps (drop i (parents v)) acc =
      Inr (acc + of_int (\<Sum>j\<leftarrow>[i..<length (parents v)].
             assigned ps (parents v ! j) * prod_list (take j (no_parent_states v))))"
proof (induction "length (parents v) - i" arbitrary: i acc)
  case 0
  then show ?case by simp
next
  case (Suc m)
  let ?cs = "no_parent_states v"
  let ?k = "assigned ps (parents v ! i)"
  let ?P = "prod_list (take i ?cs)"
  from Suc have i: "i < length (parents v)" by simp
  from r have len: "length (parents v) = length ?cs" by (rule list_all2_lengthD)
  have rng: "in_range ps (parents v ! j) (?cs ! j)" if "j < length ?cs" for j
    using r that len by (simp add: list_all2_nthD)
  have one: "\<forall>j<length ?cs. 1 \<le> ?cs ! j"
    using in_range_bounds[OF rng] by force
  have k: "0 \<le> ?k" "?k < ?cs ! i"
    using in_range_bounds[OF rng, of i] i len by simp_all
  have P: "0 < ?P" using prod_take_pos[OF one, of i] i len by simp
  have next_le: "prod_list (take (Suc i) ?cs) \<le> prod_list ?cs"
    using prod_take_mono[OF one, of "Suc i" "length ?cs"] i len by simp
  have "(?k + 1) * ?P \<le> ?cs ! i * ?P"
    using k P by (intro mult_right_mono) simp_all
  then have "?k * ?P + ?P \<le> ?cs ! i * ?P" by (simp add: distrib_right)
  with P have lt: "?k * ?P < ?cs ! i * ?P" by linarith
  have "prod_list (take (Suc i) ?cs) = ?cs ! i * ?P"
    using i len by (simp add: take_Suc_conv_app_nth)
  with lt have "?k * ?P < prod_list (take (Suc i) ?cs)" by simp
  with next_le nowrap have kP: "?k * ?P < 2 ^ 63" by simp
  have "?P \<le> prod_list ?cs"
    using prod_take_mono[OF one, of i "length ?cs"] i len by simp
  with nowrap have P63: "?P < 2 ^ 63" by simp
  from in_range_py_mul[OF rng, of i "take i ?cs"] i len P P63 kP obtain x where
    x: "ps (KStr (parents v ! i)) = Some x"
    "py_mul x (np_prod (take i ?cs)) = Inr (of_int (?k * ?P))"
    by auto
  have dr: "drop i (parents v) = parents v ! i # drop (Suc i) (parents v)"
    using i by (simp add: Cons_nth_drop_Suc)
  have up: "[i..<length (parents v)] = i # [Suc i..<length (parents v)]"
    using i by (simp add: upt_conv_Cons)
  have m: "m = length (parents v) - Suc i" using Suc(2) by simp
  have le: "Suc i \<le> length (parents v)" using i by simp
  note IH = Suc(1)[OF m le]
  show ?case
    by (simp add: dr up x list_index_nth[OF d i] IH algebra_simps)
qed

lemma mixed_radix_bound:
  fixes k :: "nat \<Rightarrow> int" and cs :: "int list"
  assumes "\<forall>j<n. 0 \<le> k j \<and> k j < cs ! j" "n \<le> length cs"
  shows "0 \<le> (\<Sum>j\<leftarrow>[0..<n]. k j * prod_list (take j cs)) \<and>
         (\<Sum>j\<leftarrow>[0..<n]. k j * prod_list (take j cs)) < prod_list (take n cs) \<and>
         0 < prod_list (take n cs)"
  using assms
proof (induction n)
  case 0
  then show ?case by simp
next
  case (Suc n)
  define S where "S = (\<Sum>j\<leftarrow>[0..<n]. k j * prod_list (take j cs))"
  define P where "P = prod_list (take n cs)"
  from Suc have IH: "0 \<le> S" "S < P" "0 < P" by (simp_all add: S_def P_def)
  from Suc(2) have kn: "0 \<le> k n" "k n < cs ! n" by simp_all
  from Suc(3) have tk: "take (Suc n) cs = take n cs @ [cs ! n]"
    by (simp add: take_Suc_conv_app_nth)
  have "(k n + 1) * P \<le> cs ! n * P"
    using kn IH by (intro mult_right_mono) auto
  then have lt: "S + k n * P < P * cs ! n"
    using IH by (simp add: algebra_simps)
  have "0 \<le> k n * P" using kn IH by simp
  moreover have "0 < P * cs ! n" using kn IH by simp
  ultimately show ?case
    using IH lt by (simp add: tk S_def[symmetric] P_def[symmetric])
qed

lemma py_int_of_int: "py_int (of_int k) = k"
  by (simp add: py_int_def)

lemma np_index_in_range: "0 \<le> i \<Longrightarrow> i < int n \<Longrightarrow> np_index n i = Inr (nat i)"
  by (simp add: np_index_def)

lemma valid_var_event: "valid_variable var_event"
  by (simp add: valid_variable_def Variable_init_def var_event_def rectangular_def shape1_def
      np_prod_def int64_wrap_def np_allclose_1_def column_sums_def upt_conv_Cons)

lemma valid_var_dup: "valid_variable var_dup"
  by (simp add: valid_variable_def Variable_init_def var_dup_def rectangular_def shape1_def
      np_prod_def int64_wrap_def np_allclose_1_def column_sums_def upt_conv_Cons)

text \<open>
  The constructor accepts the variable whose cardinalities multiply to \<open>2\<^sup>6\<^sup>4 + 1\<close>:
  \<^verbatim>\<open>np.prod\<close> gives 1, the number of its columns.
\<close>

lemma valid_var_wrap: "valid_variable var_wrap"
  by (simp add: valid_variable_def Variable_init_def var_wrap_def rectangular_def shape1_def
      np_prod_def int64_wrap_def np_allclose_1_def column_sums_def upt_conv_Cons)

lemma column_event:
  "column_spec var_event [KStr ''cond0'' \<mapsto> PInt 1, KStr ''cond1'' \<mapsto> PInt 1] = 4"
  by (simp add: column_spec_def var_event_def assigned_def upt_conv_Cons)

lemma probability_var_dup:
  "list_all2 (in_range [KStr ''P'' \<mapsto> PInt 1]) (parents var_dup) (no_parent_states var_dup) \<and>
   probability var_dup (PInt 0) (ADict [KStr ''P'' \<mapsto> PInt 1]) = Inr (3 / 10) \<and>
   column_spec var_dup [KStr ''P'' \<mapsto> PInt 1] = 3 \<and>
   table var_dup ! 0 ! 3 = 4 / 10"
  by (simp add: var_dup_def in_range_def probability_def column_spec_def assigned_def
      list_index_def np_prod_def int64_wrap_def np_getitem2_def np_index_def py_int_def
      upt_conv_Cons)

lemma probability_var_wrap:
  "distinct (parents var_wrap) \<and>
   list_all2 (in_range [KStr ''P'' \<mapsto> PInt 1, KStr ''Q'' \<mapsto> PInt 0])
     (parents var_wrap) (no_parent_states var_wrap) \<and>
   probability var_wrap (PInt 0) (ADict [KStr ''P'' \<mapsto> PInt 1, KStr ''Q'' \<mapsto> PInt 0])
     = Inl IndexError"
  by (simp add: var_wrap_def in_range_def probability_def list_index_def np_prod_def
      int64_wrap_def np_getitem2_def np_index_def py_int_def)

text \<open>
  Claim C8 says that for every valid variable \<^verbatim>\<open>probability\<close> returns the table entry
  in the column \<open>\<Sum>\<^sub>i parentstates[parents[i]] * \<Prod>\<^sub>j\<^sub><\<^sub>i no_parent_states[j]\<close>. The
  constructor accepts a variable that lists a parent name twice, and for it the code
  takes \<^verbatim>\<open>self.parents.index(variable)\<close>, the first position of the name, for both
  occurrences: with \<open>P = 1\<close> it reads column \<open>1 + 1 = 2\<close>, the formula gives
  \<open>1 + 1 * 2 = 3\<close>. The constructor also accepts a variable with one column whose
  parent cardinalities 274177 and 67280421310721 have the product \<open>2\<^sup>6\<^sup>4 + 1\<close>, since
  \<^verbatim>\<open>np.prod\<close> wraps around to 1: with the in-range values \<open>P = 1\<close>, \<open>Q = 0\<close> the code
  computes column 1 and raises \<^verbatim>\<open>IndexError\<close>.
\<close>

theorem probability_column_counterexample:
  "valid_variable var_dup \<and>
   list_all2 (in_range [KStr ''P'' \<mapsto> PInt 1]) (parents var_dup) (no_parent_states var_dup) \<and>
   probability var_dup (PInt 0) (ADict [KStr ''P'' \<mapsto> PInt 1]) = Inr (3 / 10) \<and>
   column_spec var_dup [KStr ''P'' \<mapsto> PInt 1] = 3 \<and>
   table var_dup ! 0 ! 3 = 4 / 10 \<and>
   valid_variable var_wrap \<and> distinct (parents var_wrap) \<and>
   list_all2 (in_range [KStr ''P'' \<mapsto> PInt 1, KStr ''Q'' \<mapsto> PInt 0])
     (parents var_wrap) (no_parent_states var_wrap) \<and>
   probability var_wrap (PInt 0) (ADict [KStr ''P'' \<mapsto> PInt 1, KStr ''Q'' \<mapsto> PInt 0])
     = Inl IndexError"
  using valid_var_dup valid_var_wrap probability_var_dup probability_var_wrap by simp

text \<open>
  Claim C8, amended. For every valid variable whose parent names are pairwise
  distinct and whose parent cardinalities have a product below \<open>2\<^sup>6\<^sup>3\<close>, every state
  in range and every dictionary that assigns an in-range index to each parent,
  \<^verbatim>\<open>probability\<close> returns the table entry in the row of the state and the column of
  the formula, and that column is inside the table. In particular, for the variable
  of the docstring, with 3 states and the parents \<open>cond0\<close>, \<open>cond1\<close> of cardinalities
  3 and 2, \<open>probability(0, {cond0: 1, cond1: 1})\<close> is the entry in row 0, column 4.
\<close>

theorem probability_column:
  assumes valid: "valid_variable v" and d: "distinct (parents v)"
    and nowrap: "prod_list (no_parent_states v) < 2 ^ 63"
    and s: "0 \<le> state" "state < no_states v"
    and r: "list_all2 (in_range ps) (parents v) (no_parent_states v)"
  shows "probability v (PInt state) (ADict ps) =
           Inr (table v ! nat state ! nat (column_spec v ps)) \<and>
         0 \<le> column_spec v ps \<and> column_spec v ps < int (shape1 (table v))"
proof -
  let ?cs = "no_parent_states v"
  from valid have rect: "rectangular (table v)"
    and rows: "int (length (table v)) = no_states v"
    and cols0: "real (shape1 (table v)) = np_value (np_prod ?cs)"
    by (auto simp: valid_variable_def Variable_init_def split: if_splits)
  from r have len: "length (parents v) = length ?cs"
    by (rule list_all2_lengthD)
  have loop: "table_index_loop v ps (parents v) 0 = Inr (of_int (column_spec v ps))"
    using table_index_loop_suffix[OF d r nowrap, of 0 0] by (simp add: column_spec_def)
  have "\<forall>j<length (parents v).
          0 \<le> assigned ps (parents v ! j) \<and> assigned ps (parents v ! j) < ?cs ! j"
    using r in_range_bounds by (auto simp: list_all2_conv_all_nth)
  from mixed_radix_bound[OF this] len
  have b: "0 \<le> column_spec v ps" "column_spec v ps < prod_list ?cs" "0 < prod_list ?cs"
    by (simp_all add: column_spec_def)
  have "int64_wrap (prod_list ?cs) = prod_list ?cs"
    using b(3) nowrap by (intro int64_wrap_id) simp_all
  then have "np_value (np_prod ?cs) = of_int (prod_list ?cs)"
    by (simp add: np_prod_def)
  with cols0 have "real_of_int (int (shape1 (table v))) = of_int (prod_list ?cs)" by simp
  then have cols: "int (shape1 (table v)) = prod_list ?cs"
    by (simp only: of_int_eq_iff)
  have row: "nat state < length (table v)" using s rows by simp
  with rect have rl: "length (table v ! nat state) = shape1 (table v)"
    by (simp add: rectangular_def list_all_length)
  have "np_getitem2 (table v) state (column_spec v ps) =
          Inr (table v ! nat state ! nat (column_spec v ps))"
    using s rows b cols by (simp add: np_getitem2_def np_index_in_range rl)
  then show ?thesis
    using s b cols by (simp add: probability_def loop py_int_of_int)
qed

theorem probability_column_witness:
  "valid_variable var_event \<and> distinct (parents var_event) \<and>
   prod_list (no_parent_states var_event) < 2 ^ 63 \<and>
   list_all2 (in_range [KStr ''cond0'' \<mapsto> PInt 1, KStr ''cond1'' \<mapsto> PInt 1])
     (parents var_event) (no_parent_states var_event) \<and>
   probability var_event (PInt 0) (ADict [KStr ''cond0'' \<mapsto> PInt 1, KStr ''cond1'' \<mapsto> PInt 1])
     = Inr (table var_event ! 0 ! 4) \<and>
   column_spec var_event [KStr ''cond0'' \<mapsto> PInt 1, KStr ''cond1'' \<mapsto> PInt 1] = 4 \<and>
   table var_event ! 0 ! 4 = 2 / 10"
proof -
  let ?ps = "[KStr ''cond0'' \<mapsto> PInt 1, KStr ''cond1'' \<mapsto> PInt (1::int)]"
  have d: "distinct (parents var_event)" by (simp add: var_event_def)
  have n: "prod_list (no_parent_states var_event) < 2 ^ 63" by (simp add: var_event_def)
  have s: "(0::int) \<le> 0" "0 < no_states var_event" by (simp_all add: var_event_def)
  have r: "list_all2 (in_range ?ps) (parents var_event) (no_parent_states var_event)"
    by (simp add: var_event_def in_range_def)
  have t: "table var_event ! 0 ! 4 = 2 / 10" by (simp add: var_event_def)
  show ?thesis
    using probability_column[OF valid_var_event d n s r] valid_var_event d n r t
    by (simp add: column_event)
qed

end
